theory Spec2Isabelle
  imports Main "HOL-Library.Sublist"
begin

section \<open>Strings and the library functions the program calls\<close>

text \<open>
  A Go string is a sequence of bytes; it is modelled as a \<open>string\<close> (a list of 8-bit
  characters). A Go \<open>error\<close> is only ever read through \<open>err.Error()\<close> (also by the
  \<open>%v\<close> verb), so a non-nil error is modelled by its message and a possibly-nil error by
  a \<open>string option\<close>.
\<close>

text \<open>\<open>strings.Contains(s, substr)\<close>: does \<open>substr\<close> occur in \<open>s\<close> at some position.\<close>

fun Contains :: "string \<Rightarrow> string \<Rightarrow> bool" where
  "Contains [] substr = (substr = [])"
| "Contains (c # s) substr = (prefix substr (c # s) \<or> Contains s substr)"

text \<open>The decimal digits of a natural number, as \<open>%v\<close> prints an integer.\<close>

fun digits :: "nat \<Rightarrow> string" where
  "digits n = (if n < 10 then [char_of (48 + n)]
               else digits (n div 10) @ [char_of (48 + n mod 10)])"

declare digits.simps [simp del]

definition Itoa :: "int \<Rightarrow> string" where
  "Itoa i = (if i < 0 then CHR ''-'' # digits (nat (- i)) else digits (nat i))"

text \<open>Status codes of \<open>net/http\<close>.\<close>

definition StatusOK :: nat where "StatusOK = 200"
definition StatusRequestTimeout :: nat where "StatusRequestTimeout = 408"
definition StatusTooManyRequests :: nat where "StatusTooManyRequests = 429"
definition StatusInternalServerError :: nat where "StatusInternalServerError = 500"

section \<open>The attempt observer: \<open>OrderInsertErrorLogger\<close>\<close>

text \<open>
  Of the driver's \<open>gocql.ObservedQuery\<close> the observer reads two fields: the attempt
  number and the error of the attempt (nil when the attempt succeeded).
\<close>

record ObservedQuery =
  Attempt :: int
  Err :: "string option"

record OrderInsertErrorLogger =
  orderID :: string

text \<open>
  \<open>ObserveQuery\<close> returns the messages it hands to \<open>log.Printf\<close>, in order (the
  logger's timestamp prefix and final newline are left out).
\<close>

definition ObserveQuery :: "OrderInsertErrorLogger \<Rightarrow> ObservedQuery \<Rightarrow> string list" where
  "ObserveQuery l oq =
     (case Err oq of
        None \<Rightarrow> []
      | Some err \<Rightarrow>
          [''Query error for order ID '' @ orderID l @ [CHR 0x0A] @ err] @
          (if Attempt oq > 0
           then [''Order '' @ orderID l @ '' is being retried. attempt #'' @ Itoa (Attempt oq)]
           else []))"

section \<open>The write handler: \<open>Add\<close>\<close>

datatype Value = VString string | VInt int | VTime int

text \<open>
  The query handed to the driver by
  \<open>cs.Query(insertQuery).Bind(...).Observer(...).Exec()\<close>.
\<close>

record Query =
  stmt :: string
  bound :: "Value list"
  observer :: OrderInsertErrorLogger

text \<open>
  What one request reads from outside the handler: the pair returned by
  \<open>uuid.GenerateUUID()\<close>, the result of \<open>rand.Intn(200)\<close> and the clock.
\<close>

record Env =
  GenerateUUID :: "string \<times> string option"
  Intn200 :: int
  Now :: int

text \<open>
  What the handler does: the queries it executes, what it writes to the
  \<open>http.ResponseWriter\<close> (\<open>http.Error\<close> writes the status and the message followed by a
  newline; \<open>None\<close> when the handler returns without writing), and its own log lines.
\<close>

record Effect =
  executed :: "Query list"
  written :: "(nat \<times> string) option"
  logged :: "string list"

definition fixedLocation :: string where
  "fixedLocation = ''Seattle''"

text \<open>Lines 122 to 127: the status chosen for a non-nil error.\<close>

definition respStatus :: "string \<Rightarrow> nat" where
  "respStatus err =
     (if Contains err ''TooManyRequests (429)'' then StatusTooManyRequests
      else if Contains err ''timeout'' then StatusRequestTimeout
      else StatusInternalServerError)"

text \<open>
  The driver's \<open>Exec\<close> is a parameter: it takes the query and returns the terminal
  error (or nil).
\<close>

definition Add :: "(Query \<Rightarrow> string option) \<Rightarrow> string \<Rightarrow> Env \<Rightarrow> Effect" where
  "Add Exec insertQuery env =
     (let rid = fst (GenerateUUID env);
          q = \<lparr>stmt = insertQuery,
               bound = [VString rid, VInt (Intn200 env + 50), VString fixedLocation, VTime (Now env)],
               observer = \<lparr>orderID = rid\<rparr>\<rparr>
      in case Exec q of
           Some err \<Rightarrow> \<lparr>executed = [q], written = Some (respStatus err, err @ [CHR 0x0A]), logged = []\<rparr>
         | None \<Rightarrow> \<lparr>executed = [q], written = None, logged = [''Added order ID '' @ rid]\<rparr>)"

text \<open>
  The status the client receives: \<open>net/http\<close> answers 200 OK when the handler returns
  without having written a header.
\<close>

definition status :: "Effect \<Rightarrow> nat" where
  "status e = (case written e of None \<Rightarrow> StatusOK | Some (code, body) \<Rightarrow> code)"

section \<open>Start-up: \<open>init\<close>\<close>

text \<open>
  \<open>strconv.ParseBool\<close> and \<open>strconv.Atoi\<close> of the Go library (\<open>int\<close> has 64 bits). Atoi
  takes an optional sign and at least one decimal digit, and refuses a value outside the
  range of \<open>int\<close>.
\<close>

datatype NumError = ErrSyntax | ErrRange

definition ParseBool :: "string \<Rightarrow> NumError + bool" where
  "ParseBool str =
     (if str \<in> set [''1'', ''t'', ''T'', ''true'', ''TRUE'', ''True''] then Inr True
      else if str \<in> set [''0'', ''f'', ''F'', ''false'', ''FALSE'', ''False''] then Inr False
      else Inl ErrSyntax)"

fun parse_digits :: "string \<Rightarrow> nat \<Rightarrow> nat option" where
  "parse_digits [] n = Some n"
| "parse_digits (ch # s) n =
     (let d = of_char ch :: nat in
      if 48 \<le> d \<and> d \<le> 57 then parse_digits s (n * 10 + (d - 48)) else None)"

definition Atoi :: "string \<Rightarrow> NumError + int" where
  "Atoi s0 =
     (let neg = (s0 \<noteq> [] \<and> hd s0 = CHR ''-'');
          s = (if s0 \<noteq> [] \<and> (hd s0 = CHR ''-'' \<or> hd s0 = CHR ''+'') then tl s0 else s0)
      in if s = [] then Inl ErrSyntax
         else case parse_digits s 0 of
                None \<Rightarrow> Inl ErrSyntax
              | Some n \<Rightarrow>
                  let v = (if neg then - int n else int n)
                  in if - (2 ^ 63) \<le> v \<and> v < 2 ^ 63 then Inr v else Inl ErrRange)"

text \<open>
  Modelled from the spec: the retry policy of the extension package
  \<open>cosmos-cassandra-go-extension/retry\<close>, which is not part of the sources. The spec's
  PolicyConfig holds \<open>maxRetries\<close>, set once at construction; the constructor stores the
  integer it is given.
\<close>

record PolicyConfig =
  maxRetries :: int

definition NewCosmosRetryPolicy :: "int \<Rightarrow> PolicyConfig" where
  "NewCosmosRetryPolicy numRetries = \<lparr>maxRetries = numRetries\<rparr>"

text \<open>The fields of \<open>gocql.ClusterConfig\<close> that \<open>init\<close> sets (durations in nanoseconds).\<close>

record ClusterConfig =
  Hosts :: "string list"
  Port :: int
  Authenticator :: "string \<times> string"
  SslMinVersion :: string
  RetryPolicy :: "PolicyConfig option"
  ProtoVersion :: int
  ConnectTimeout :: int
  Timeout :: int

text \<open>The package variables once \<open>init\<close> has returned; the session keeps its configuration.\<close>

record Globals =
  cosmosCassandraContactPoint :: string
  cosmosCassandraUser :: string
  cosmosCassandraPassword :: string
  keyspace :: string
  table :: string
  cs :: ClusterConfig
  insertQuery :: string
  useRetryPolicy :: bool

text \<open>Every \<open>log.Fatal\<close> of \<open>init\<close> ends the process; it is the \<open>Inl\<close> branch.\<close>

datatype Fatal =
    MissingEnv
  | BadUseRetryPolicy NumError
  | BadMaxRetries NumError
  | ConnectFailed string

text \<open>
  \<open>gocql.NewCluster\<close>: the driver's defaults. \<open>init\<close> overwrites every field below but
  the hosts and the retry policy, which the driver leaves unset (no retries).
\<close>

definition NewCluster :: "string \<Rightarrow> ClusterConfig" where
  "NewCluster host = \<lparr>Hosts = [host], Port = 9042, Authenticator = ([], []), SslMinVersion = [],
     RetryPolicy = None, ProtoVersion = 0, ConnectTimeout = 600000000, Timeout = 600000000\<rparr>"

text \<open>
  \<open>Getenv\<close> is the environment (an unset variable reads as the empty string) and
  \<open>CreateSession\<close> the driver's connection attempt, returning its error or nil.
\<close>

definition init :: "(string \<Rightarrow> string) \<Rightarrow> (ClusterConfig \<Rightarrow> string option) \<Rightarrow> Fatal + Globals" where
  "init Getenv CreateSession =
     (let contactPoint = Getenv ''COSMOSDB_CASSANDRA_CONTACT_POINT'';
          user = Getenv ''COSMOSDB_CASSANDRA_USER'';
          password = Getenv ''COSMOSDB_CASSANDRA_PASSWORD'';
          ks = Getenv ''COSMOSDB_CASSANDRA_KEYSPACE'';
          tbl = Getenv ''COSMOSDB_CASSANDRA_TABLE''
      in if contactPoint = [] \<or> user = [] \<or> password = [] then Inl MissingEnv
         else
           let useRetryEnvVar = Getenv ''USE_RETRY_POLICY'';
               useRetryEnvVar = (if useRetryEnvVar = [] then ''true'' else useRetryEnvVar)
           in case ParseBool useRetryEnvVar of
                Inl err \<Rightarrow> Inl (BadUseRetryPolicy err)
              | Inr use \<Rightarrow>
                  let clusterConfig = (NewCluster contactPoint)
                        \<lparr>Port := 10350, Authenticator := (user, password), SslMinVersion := ''TLS1.2''\<rparr>;
                      withPolicy =
                        (if use
                         then let maxRetries = Getenv ''MAX_RETRIES'';
                                  maxRetries = (if maxRetries = [] then ''5'' else maxRetries)
                              in case Atoi maxRetries of
                                   Inl err \<Rightarrow> Inl (BadMaxRetries err)
                                 | Inr numRetries \<Rightarrow>
                                     Inr (clusterConfig\<lparr>RetryPolicy := Some (NewCosmosRetryPolicy numRetries)\<rparr>)
                         else Inr clusterConfig)
                  in case withPolicy of
                       Inl fatal \<Rightarrow> Inl fatal
                     | Inr clusterConfig \<Rightarrow>
                         let clusterConfig = clusterConfig
                               \<lparr>ProtoVersion := 4, ConnectTimeout := 3000000000, Timeout := 3000000000\<rparr>
                         in case CreateSession clusterConfig of
                              Some err \<Rightarrow> Inl (ConnectFailed err)
                            | None \<Rightarrow>
                                Inr \<lparr>cosmosCassandraContactPoint = contactPoint,
                                     cosmosCassandraUser = user,
                                     cosmosCassandraPassword = password,
                                     keyspace = ks, table = tbl, cs = clusterConfig,
                                     insertQuery = ''insert into '' @ ks @ ''.'' @ tbl @
                                       '' (id,amount,state,time) values (?,?,?,?)'',
                                     useRetryPolicy = use\<rparr>)"

section \<open>The attempt loop and the retry decision\<close>

text \<open>
  Modelled from the spec: the data of the retry decision (spec 3) and, below, the decision
  itself (\<open>decide\<close>, spec 4.2) and the attempt loop (\<open>execute\<close>, spec 4.4). In the
  program they are the extension package's retry policy and the driver's query executor
  behind \<open>Exec\<close>; neither is part of the sources. A duration is a non-negative number of
  milliseconds; a Throttled error may carry the wait the server suggests.
\<close>

datatype ErrorKind = Throttled "nat option" | Timeout | Unavailable | Other

record Operation =
  correlationId :: string
  payload :: "Value list"
  idempotent :: bool

record RetryDecision =
  shouldRetry :: bool
  delay :: nat

text \<open>
  Modelled from the spec: the backoff of 4.2, the base delay times \<open>2 ^ attemptIndex\<close>
  capped at a ceiling, plus the jitter drawn for the attempt.
\<close>

record Backoff =
  baseDelay :: nat
  maxDelay :: nat

definition backoff :: "Backoff \<Rightarrow> nat \<Rightarrow> nat \<Rightarrow> nat" where
  "backoff b attemptIndex jitter = min (baseDelay b * 2 ^ attemptIndex) (maxDelay b) + jitter"

text \<open>
  Modelled from the spec: \<open>decide\<close> of 4.2. From attempt index \<open>maxRetries\<close> on it never
  retries. Below the cap, Throttled retries after the server's hint if there is one and
  after the backoff otherwise, Timeout retries only an idempotent operation, Unavailable
  retries, Other does not.
\<close>

definition decide :: "PolicyConfig \<Rightarrow> Backoff \<Rightarrow> nat \<Rightarrow> ErrorKind \<Rightarrow> nat \<Rightarrow> Operation \<Rightarrow> RetryDecision" where
  "decide cfg b jitter kind attemptIndex operation =
     (if int attemptIndex \<ge> maxRetries cfg then \<lparr>shouldRetry = False, delay = 0\<rparr>
      else case kind of
             Throttled retryAfter \<Rightarrow>
               \<lparr>shouldRetry = True,
                delay = (case retryAfter of Some d \<Rightarrow> d | None \<Rightarrow> backoff b attemptIndex jitter)\<rparr>
           | Timeout \<Rightarrow>
               if idempotent operation
               then \<lparr>shouldRetry = True, delay = backoff b attemptIndex jitter\<rparr>
               else \<lparr>shouldRetry = False, delay = 0\<rparr>
           | Unavailable \<Rightarrow> \<lparr>shouldRetry = True, delay = backoff b attemptIndex jitter\<rparr>
           | Other \<Rightarrow> \<lparr>shouldRetry = False, delay = 0\<rparr>)"

text \<open>
  Modelled from the spec: one call of the observer, \<open>record(correlationId, attemptIndex,
  outcome)\<close> of 4.3, where the outcome is success or the error kind with the raw error.
\<close>

datatype Outcome = Succeeded | Failed ErrorKind string

record Observation =
  obsId :: string
  obsIndex :: nat
  obsOutcome :: Outcome

text \<open>
  Modelled from the spec: the result of \<open>execute\<close> (4.4), success or the terminal error
  with its kind, raw error and attempts made; and a run of the loop: its result, the number
  of attempts issued, the observer's calls, the decisions the policy was asked for and the
  delays slept, each in order.
\<close>

datatype Result = Success | TerminalError ErrorKind string nat

record Run =
  result :: Result
  attempts :: nat
  observations :: "Observation list"
  decisions :: "RetryDecision list"
  sleeps :: "nat list"

text \<open>
  Modelled from the spec: the state machine of 4.4 in state \<open>Attempting(index)\<close>. The
  operation is issued; on success the observer is called and the run is done; on failure
  the error is classified, the observer is called and the policy is asked: to retry is to
  sleep for the delay and go on with the next index. \<open>backend index\<close> is what the attempt
  with that index returns (the raw error, or nil), \<open>jitter index\<close> the jitter drawn after
  it, and \<open>policy\<close> is \<open>None\<close> when the retry policy is disabled (spec 6: one attempt,
  any failure surfaced at once).
\<close>

function attempting ::
  "(string \<Rightarrow> ErrorKind) \<Rightarrow> PolicyConfig option \<Rightarrow> Backoff \<Rightarrow> (nat \<Rightarrow> nat) \<Rightarrow> Operation \<Rightarrow>
   (nat \<Rightarrow> string option) \<Rightarrow> nat \<Rightarrow> Run" where
  "attempting classify policy b jitter operation backend index =
     (case backend index of
        None \<Rightarrow>
          \<lparr>result = Success, attempts = index + 1,
           observations = [\<lparr>obsId = correlationId operation, obsIndex = index, obsOutcome = Succeeded\<rparr>],
           decisions = [], sleeps = []\<rparr>
      | Some rawError \<Rightarrow>
          let kind = classify rawError;
              seen = \<lparr>obsId = correlationId operation, obsIndex = index,
                      obsOutcome = Failed kind rawError\<rparr>;
              terminal = TerminalError kind rawError (index + 1)
          in case policy of
               None \<Rightarrow>
                 \<lparr>result = terminal, attempts = index + 1, observations = [seen],
                  decisions = [], sleeps = []\<rparr>
             | Some cfg \<Rightarrow>
                 let d = decide cfg b (jitter index) kind index operation
                 in if shouldRetry d
                    then let r = attempting classify policy b jitter operation backend (index + 1)
                         in r\<lparr>observations := seen # observations r,
                              decisions := d # decisions r,
                              sleeps := delay d # sleeps r\<rparr>
                    else \<lparr>result = terminal, attempts = index + 1, observations = [seen],
                          decisions = [d], sleeps = []\<rparr>)"
  by pat_completeness auto
termination
proof (relation "measure (\<lambda>(classify, policy, b, jitter, operation, backend, index).
                   case policy of None \<Rightarrow> 0 | Some cfg \<Rightarrow> nat (maxRetries cfg) - index)")
  show "wf (measure (\<lambda>(classify, policy, b, jitter, operation, backend, index).
                   case policy of None \<Rightarrow> 0 | Some cfg \<Rightarrow> nat (maxRetries cfg) - index))"
    by simp
next
  fix classify :: "string \<Rightarrow> ErrorKind" and policy :: "PolicyConfig option"
    and b :: Backoff and jitter :: "nat \<Rightarrow> nat" and operation :: Operation
    and backend :: "nat \<Rightarrow> string option" and index :: nat
    and rawError kind seen terminal cfg d
  assume "policy = Some cfg"
    and "d = decide cfg b (jitter index) kind index operation"
    and "shouldRetry d"
  then have "int index < maxRetries cfg"
    by (auto simp: decide_def split: if_splits)
  with \<open>policy = Some cfg\<close>
  show "((classify, policy, b, jitter, operation, backend, index + 1),
         (classify, policy, b, jitter, operation, backend, index))
        \<in> measure (\<lambda>(classify, policy, b, jitter, operation, backend, index).
                   case policy of None \<Rightarrow> 0 | Some cfg \<Rightarrow> nat (maxRetries cfg) - index)"
    by simp
qed

declare attempting.simps [simp del]

text \<open>Modelled from the spec: \<open>execute\<close> of 4.4 starts in \<open>Attempting(0)\<close>.\<close>

definition execute ::
  "(string \<Rightarrow> ErrorKind) \<Rightarrow> PolicyConfig option \<Rightarrow> Backoff \<Rightarrow> (nat \<Rightarrow> nat) \<Rightarrow> Operation \<Rightarrow>
   (nat \<Rightarrow> string option) \<Rightarrow> Run" where
  "execute classify policy b jitter operation backend =
     attempting classify policy b jitter operation backend 0"

text \<open>
  Modelled from the spec: the driver's hook of 6(c). Each observation reaches the query's
  observer as an \<open>ObservedQuery\<close> holding the attempt index and the raw error of the
  attempt (nil on success).
\<close>

definition observed :: "Observation \<Rightarrow> ObservedQuery" where
  "observed ob =
     \<lparr>Attempt = int (obsIndex ob),
      Err = (case obsOutcome ob of Succeeded \<Rightarrow> None | Failed kind rawError \<Rightarrow> Some rawError)\<rparr>"

text \<open>The outcome of the attempt with index \<open>i\<close>, as the loop reports it to the observer.\<close>

definition outcome_of :: "(string \<Rightarrow> ErrorKind) \<Rightarrow> (nat \<Rightarrow> string option) \<Rightarrow> nat \<Rightarrow> Outcome" where
  "outcome_of classify backend i =
     (case backend i of None \<Rightarrow> Succeeded | Some rawError \<Rightarrow> Failed (classify rawError) rawError)"

section \<open>Auxiliary facts\<close>

subsection \<open>Substrings\<close>

lemma Contains_iff: "Contains s t \<longleftrightarrow> (\<exists>p r. s = p @ t @ r)"
proof (induction s)
  case Nil
  then show ?case by auto
next
  case (Cons c s)
  show ?case
  proof
    assume "Contains (c # s) t"
    then consider "prefix t (c # s)" | "Contains s t" by auto
    then show "\<exists>p r. c # s = p @ t @ r"
    proof cases
      case 1
      then obtain r where "c # s = t @ r" by (auto simp: prefix_def)
      then have "c # s = [] @ t @ r" by simp
      then show ?thesis by blast
    next
      case 2
      with Cons obtain p r where "s = p @ t @ r" by blast
      then have "c # s = (c # p) @ t @ r" by simp
      then show ?thesis by blast
    qed
  next
    assume "\<exists>p r. c # s = p @ t @ r"
    then obtain p r where e: "c # s = p @ t @ r" by blast
    show "Contains (c # s) t"
    proof (cases p)
      case Nil
      with e have "prefix t (c # s)" by (simp add: prefix_def)
      then show ?thesis by simp
    next
      case (Cons a p')
      with e have "s = p' @ t @ r" by simp
      with Cons.IH have "Contains s t" by blast
      then show ?thesis by simp
    qed
  qed
qed

lemma Contains_mid: "Contains (p @ t @ r) t"
  by (auto simp: Contains_iff)

lemmas status_defs = StatusOK_def StatusRequestTimeout_def StatusTooManyRequests_def
  StatusInternalServerError_def

lemma Add_executed:
  "executed (Add Exec iq env) =
     [\<lparr>stmt = iq,
       bound = [VString (fst (GenerateUUID env)), VInt (Intn200 env + 50), VString fixedLocation,
                VTime (Now env)],
       observer = \<lparr>orderID = fst (GenerateUUID env)\<rparr>\<rparr>]"
  by (simp add: Add_def Let_def split: option.split)

subsection \<open>Decimal numbers\<close>

lemma parse_digits_append:
  "parse_digits (xs @ ys) n =
     (case parse_digits xs n of None \<Rightarrow> None | Some m \<Rightarrow> parse_digits ys m)"
  by (induction xs arbitrary: n) (auto simp: Let_def)

lemma parse_digit: "d < 10 \<Longrightarrow> parse_digits [char_of (48 + d)] n = Some (n * 10 + d)"
  by (simp add: Let_def)

lemma parse_digits_digits: "parse_digits (digits n) 0 = Some n"
proof (induction n rule: digits.induct)
  case (1 n)
  show ?case
  proof (cases "n < 10")
    case True
    then show ?thesis using parse_digit [of n 0] by (subst digits.simps) simp
  next
    case False
    with 1 have ih: "parse_digits (digits (n div 10)) 0 = Some (n div 10)" by simp
    have "n mod 10 < 10" by simp
    then have "parse_digits [char_of (48 + n mod 10)] (n div 10) = Some ((n div 10) * 10 + n mod 10)"
      by (rule parse_digit)
    with ih False show ?thesis
      by (subst digits.simps) (simp add: parse_digits_append del: parse_digits.simps)
  qed
qed

lemma digits_nonempty: "digits n \<noteq> []"
  by (subst digits.simps) simp

lemma hd_digits: "48 \<le> (of_char (hd (digits n)) :: nat)"
proof (induction n rule: digits.induct)
  case (1 n)
  show ?case
  proof (cases "n < 10")
    case True
    then show ?thesis by (subst digits.simps) simp
  next
    case False
    with 1 have "48 \<le> (of_char (hd (digits (n div 10))) :: nat)" by simp
    with False show ?thesis
      by (subst digits.simps) (simp add: digits_nonempty)
  qed
qed

lemma hd_digits_no_sign: "hd (digits n) \<noteq> CHR ''-'' \<and> hd (digits n) \<noteq> CHR ''+''"
proof -
  have "(of_char (CHR ''-'') :: nat) < 48" "(of_char (CHR ''+'') :: nat) < 48" by simp_all
  with hd_digits [of n] show ?thesis by (metis not_le)
qed

lemma Atoi_Itoa: "n < 2 ^ 63 \<Longrightarrow> Atoi (Itoa (int n)) = Inr (int n)"
proof -
  assume "n < 2 ^ 63"
  then have "int n < 2 ^ 63" by (metis of_nat_less_iff of_nat_numeral of_nat_power)
  then show ?thesis
    using hd_digits_no_sign [of n]
    by (simp add: Atoi_def Itoa_def Let_def digits_nonempty parse_digits_digits)
qed

subsection \<open>Unfolding the attempt loop\<close>

lemma attempting_success:
  "backend index = None \<Longrightarrow>
   attempting classify policy b jitter operation backend index =
     \<lparr>result = Success, attempts = index + 1,
      observations = [\<lparr>obsId = correlationId operation, obsIndex = index, obsOutcome = Succeeded\<rparr>],
      decisions = [], sleeps = []\<rparr>"
  by (subst attempting.simps) simp

lemma attempting_no_policy:
  "backend index = Some rawError \<Longrightarrow>
   attempting classify None b jitter operation backend index =
     \<lparr>result = TerminalError (classify rawError) rawError (index + 1), attempts = index + 1,
      observations = [\<lparr>obsId = correlationId operation, obsIndex = index,
                       obsOutcome = Failed (classify rawError) rawError\<rparr>],
      decisions = [], sleeps = []\<rparr>"
  by (subst attempting.simps) (simp add: Let_def)

lemma attempting_stop:
  "backend index = Some rawError \<Longrightarrow>
   \<not> shouldRetry (decide cfg b (jitter index) (classify rawError) index operation) \<Longrightarrow>
   attempting classify (Some cfg) b jitter operation backend index =
     \<lparr>result = TerminalError (classify rawError) rawError (index + 1), attempts = index + 1,
      observations = [\<lparr>obsId = correlationId operation, obsIndex = index,
                       obsOutcome = Failed (classify rawError) rawError\<rparr>],
      decisions = [decide cfg b (jitter index) (classify rawError) index operation],
      sleeps = []\<rparr>"
  by (subst attempting.simps) (simp add: Let_def)

lemma attempting_retry:
  "backend index = Some rawError \<Longrightarrow>
   shouldRetry (decide cfg b (jitter index) (classify rawError) index operation) \<Longrightarrow>
   attempting classify (Some cfg) b jitter operation backend index =
     (let d = decide cfg b (jitter index) (classify rawError) index operation;
          r = attempting classify (Some cfg) b jitter operation backend (index + 1)
      in r\<lparr>observations := \<lparr>obsId = correlationId operation, obsIndex = index,
                               obsOutcome = Failed (classify rawError) rawError\<rparr> # observations r,
           decisions := d # decisions r,
           sleeps := delay d # sleeps r\<rparr>)"
  by (subst attempting.simps) (simp add: Let_def)

lemma decide_cap:
  "maxRetries cfg \<le> int attemptIndex \<Longrightarrow>
   decide cfg b jitter kind attemptIndex operation = \<lparr>shouldRetry = False, delay = 0\<rparr>"
  by (simp add: decide_def)

lemma decide_throttled:
  "int attemptIndex < maxRetries cfg \<Longrightarrow>
   shouldRetry (decide cfg b jitter (Throttled ra) attemptIndex operation)"
  by (simp add: decide_def)

lemma throttled_run:
  assumes thr: "\<forall>i. \<exists>raw ra. backend i = Some raw \<and> classify raw = Throttled ra"
  shows "index \<le> N \<Longrightarrow>
    (let r = attempting classify (Some \<lparr>maxRetries = int N\<rparr>) b jitter operation backend index in
     attempts r = N + 1 \<and>
     (\<exists>raw ra. backend N = Some raw \<and> classify raw = Throttled ra \<and>
        result r = TerminalError (Throttled ra) raw (N + 1)) \<and>
     map obsIndex (observations r) = [index..<N + 1] \<and>
     map shouldRetry (decisions r) = replicate (N - index) True @ [False] \<and>
     length (sleeps r) = N - index)"
proof (induction "N - index" arbitrary: index)
  case 0
  then have idx: "index = N" by simp
  from thr obtain raw ra where raw: "backend N = Some raw" "classify raw = Throttled ra" by blast
  have stop: "\<not> shouldRetry (decide \<lparr>maxRetries = int N\<rparr> b (jitter N) (classify raw) N operation)"
    by (simp add: decide_cap)
  have "attempting classify (Some \<lparr>maxRetries = int N\<rparr>) b jitter operation backend N =
     \<lparr>result = TerminalError (classify raw) raw (N + 1), attempts = N + 1,
      observations = [\<lparr>obsId = correlationId operation, obsIndex = N,
                       obsOutcome = Failed (classify raw) raw\<rparr>],
      decisions = [decide \<lparr>maxRetries = int N\<rparr> b (jitter N) (classify raw) N operation],
      sleeps = []\<rparr>"
    using raw(1) stop by (rule attempting_stop)
  with raw idx show ?case
    by (simp add: Let_def decide_cap)
next
  case (Suc k)
  then have lt: "index < N" and k: "k = N - (index + 1)" and le: "index + 1 \<le> N" by simp_all
  from thr obtain raw ra where raw: "backend index = Some raw" "classify raw = Throttled ra" by blast
  from lt have go: "shouldRetry (decide \<lparr>maxRetries = int N\<rparr> b (jitter index) (classify raw) index operation)"
    by (simp add: raw decide_throttled)
  have step: "attempting classify (Some \<lparr>maxRetries = int N\<rparr>) b jitter operation backend index =
     (let d = decide \<lparr>maxRetries = int N\<rparr> b (jitter index) (classify raw) index operation;
          r = attempting classify (Some \<lparr>maxRetries = int N\<rparr>) b jitter operation backend (index + 1)
      in r\<lparr>observations := \<lparr>obsId = correlationId operation, obsIndex = index,
                               obsOutcome = Failed (classify raw) raw\<rparr> # observations r,
           decisions := d # decisions r,
           sleeps := delay d # sleeps r\<rparr>)"
    using raw(1) go by (rule attempting_retry)
  have up: "[index..<N + 1] = index # [index + 1..<N + 1]"
    using lt by (simp add: upt_conv_Cons del: upt_Suc)
  have len: "N - index = Suc (N - (index + 1))"
    using lt by simp
  have rep: "replicate (N - index) True = True # replicate (N - (index + 1)) True"
    by (subst len) simp
  from Suc.hyps(1) [OF k le] go show ?case
    unfolding step up rep len
    by (simp add: Let_def del: upt_Suc)
qed

lemma observations_run:
  "map obsIndex (observations (attempting classify policy b jitter operation backend index)) =
     [index..<attempts (attempting classify policy b jitter operation backend index)] \<and>
   index < attempts (attempting classify policy b jitter operation backend index) \<and>
   (\<forall>ob \<in> set (observations (attempting classify policy b jitter operation backend index)).
      obsId ob = correlationId operation \<and>
      obsOutcome ob = outcome_of classify backend (obsIndex ob))"
proof (induction classify policy b jitter operation backend index rule: attempting.induct)
  case (1 classify policy b jitter operation backend index)
  show ?case
  proof (cases "backend index")
    case None
    then show ?thesis by (simp add: attempting_success outcome_of_def)
  next
    case (Some raw)
    show ?thesis
    proof (cases policy)
      case None
      with Some show ?thesis by (simp add: attempting_no_policy outcome_of_def)
    next
      case pol: (Some cfg)
      show ?thesis
      proof (cases "shouldRetry (decide cfg b (jitter index) (classify raw) index operation)")
        case False
        with Some pol show ?thesis by (simp add: attempting_stop outcome_of_def)
      next
        case True
        from "1.IH" [OF Some refl refl refl pol refl True]
        have ih: "map obsIndex (observations (attempting classify policy b jitter operation backend (index + 1))) =
            [index + 1..<attempts (attempting classify policy b jitter operation backend (index + 1))]"
          "index + 1 < attempts (attempting classify policy b jitter operation backend (index + 1))"
          "\<forall>ob \<in> set (observations (attempting classify policy b jitter operation backend (index + 1))).
             obsId ob = correlationId operation \<and>
             obsOutcome ob = outcome_of classify backend (obsIndex ob)"
          by simp_all
        have step: "attempting classify policy b jitter operation backend index =
          (let d = decide cfg b (jitter index) (classify raw) index operation;
               r = attempting classify policy b jitter operation backend (index + 1)
           in r\<lparr>observations := \<lparr>obsId = correlationId operation, obsIndex = index,
                               obsOutcome = Failed (classify raw) raw\<rparr> # observations r,
                decisions := d # decisions r,
                sleeps := delay d # sleeps r\<rparr>)"
          unfolding pol using Some True by (rule attempting_retry)
        from ih(2) have up: "[index..<attempts (attempting classify policy b jitter operation backend (Suc index))] =
            index # [Suc index..<attempts (attempting classify policy b jitter operation backend (Suc index))]"
          by (simp add: upt_conv_Cons del: upt_Suc)
        from ih Some show ?thesis
          unfolding step Let_def
          by (simp add: up outcome_of_def del: upt_Suc)
      qed
    qed
  qed
qed

subsection \<open>The observer's output and the start-up configuration\<close>

lemma ObserveQuery_length:
  "length (ObserveQuery l (observed ob)) =
     (case obsOutcome ob of Succeeded \<Rightarrow> 0
      | Failed kind rawError \<Rightarrow> if obsIndex ob = 0 then 1 else 2)"
  by (simp add: ObserveQuery_def observed_def split: Outcome.split)

lemma init_disabled:
  "init Getenv CreateSession = Inr g \<Longrightarrow> \<not> useRetryPolicy g \<Longrightarrow> RetryPolicy (cs g) = None"
  by (auto simp: init_def Let_def NewCluster_def split: if_splits sum.splits option.splits)

lemma Atoi_5: "Atoi ''5'' = Inr 5"
  by (simp add: Atoi_def Let_def)

section \<open>The claims\<close>

text \<open>
  C1. With \<open>maxRetries = N\<close>, an operation whose every attempt fails as Throttled is
  attempted exactly \<open>N + 1\<close> times and then stops with a Throttled terminal error counting
  \<open>N + 1\<close> attempts: the policy answers \<open>N\<close> times to retry and then not to. Whatever
  the error kind, the policy does not retry once the attempt index has reached \<open>N\<close>, and
  every delay it returns is at least 0.
\<close>

theorem throttled_attempts:
  "\<forall>i. \<exists>raw ra. backend i = Some raw \<and> classify raw = Throttled ra \<Longrightarrow>
   (let r = execute classify (Some (NewCosmosRetryPolicy (int N))) b jitter operation backend in
      attempts r = N + 1 \<and>
      (\<exists>raw ra. result r = TerminalError (Throttled ra) raw (N + 1)) \<and>
      length (observations r) = N + 1 \<and>
      map shouldRetry (decisions r) = replicate N True @ [False] \<and>
      (\<forall>d \<in> set (decisions r). 0 \<le> delay d)) \<and>
   (\<forall>kind i j op. N \<le> i \<longrightarrow>
      \<not> shouldRetry (decide (NewCosmosRetryPolicy (int N)) b j kind i op)) \<and>
   (\<forall>kind i j op. 0 \<le> delay (decide (NewCosmosRetryPolicy (int N)) b j kind i op))"
proof -
  assume thr: "\<forall>i. \<exists>raw ra. backend i = Some raw \<and> classify raw = Throttled ra"
  have "0 \<le> N" by simp
  from throttled_run [OF thr this, where b = b and jitter = jitter and operation = operation]
  have run: "attempts (attempting classify (Some \<lparr>maxRetries = int N\<rparr>) b jitter operation backend 0) = N + 1"
    "\<exists>raw ra. result (attempting classify (Some \<lparr>maxRetries = int N\<rparr>) b jitter operation backend 0) =
        TerminalError (Throttled ra) raw (N + 1)"
    "map obsIndex (observations (attempting classify (Some \<lparr>maxRetries = int N\<rparr>) b jitter operation backend 0)) =
        [0..<N + 1]"
    "map shouldRetry (decisions (attempting classify (Some \<lparr>maxRetries = int N\<rparr>) b jitter operation backend 0)) =
        replicate N True @ [False]"
    by (auto simp: Let_def)
  from run(3) have "length (map obsIndex (observations (attempting classify (Some \<lparr>maxRetries = int N\<rparr>)
      b jitter operation backend 0))) = length [0..<N + 1]"
    by (rule arg_cong)
  then have len: "length (observations (attempting classify (Some \<lparr>maxRetries = int N\<rparr>)
      b jitter operation backend 0)) = N + 1"
    by simp
  from run(1,2,4) len show ?thesis
    by (simp add: execute_def NewCosmosRetryPolicy_def Let_def decide_cap)
qed

theorem throttled_attempts_witness:
  "(\<forall>i. \<exists>raw ra. (\<lambda>i. Some ''TooManyRequests (429)'') i = Some raw \<and>
        (\<lambda>raw. Throttled None) raw = Throttled ra) \<and>
   attempts (execute (\<lambda>raw. Throttled None) (Some (NewCosmosRetryPolicy (int 2)))
     \<lparr>baseDelay = 100, maxDelay = 1000\<rparr> (\<lambda>i. 7)
     \<lparr>correlationId = ''o1'', payload = [], idempotent = True\<rparr>
     (\<lambda>i. Some ''TooManyRequests (429)'')) = 2 + 1"
  using throttled_attempts [of "\<lambda>i. Some ''TooManyRequests (429)''" "\<lambda>raw. Throttled None" 2
      "\<lparr>baseDelay = 100, maxDelay = 1000\<rparr>" "\<lambda>i. 7"
      "\<lparr>correlationId = ''o1'', payload = [], idempotent = True\<rparr>"]
  by (simp add: Let_def)

text \<open>
  C2. When the query executed by the handler returns an error, the status written is 429 if
  the error text holds the rate-limit mark, 408 if it does not but holds the timeout mark,
  and 500 in every other case; when the query succeeds the client receives a 2xx status.
\<close>

theorem Add_status:
  "(Exec (hd (executed (Add Exec iq env))) = Some err \<longrightarrow>
      (Contains err ''TooManyRequests (429)'' \<longrightarrow> status (Add Exec iq env) = 429) \<and>
      (\<not> Contains err ''TooManyRequests (429)'' \<and> Contains err ''timeout'' \<longrightarrow>
         status (Add Exec iq env) = 408) \<and>
      (\<not> Contains err ''TooManyRequests (429)'' \<and> \<not> Contains err ''timeout'' \<longrightarrow>
         status (Add Exec iq env) = 500)) \<and>
   (Exec (hd (executed (Add Exec iq env))) = None \<longrightarrow>
      200 \<le> status (Add Exec iq env) \<and> status (Add Exec iq env) < 300)"
  unfolding Add_executed
  by (simp add: Add_def status_def respStatus_def Let_def status_defs)

theorem Add_status_witness:
  "(\<lambda>q. Some ''gocql: no response received from cassandra within timeout period'')
     (hd (executed (Add (\<lambda>q. Some ''gocql: no response received from cassandra within timeout period'')
        ''ins'' \<lparr>GenerateUUID = (''u'', None), Intn200 = 7, Now = 0\<rparr>))) =
     Some ''gocql: no response received from cassandra within timeout period'' \<and>
   \<not> Contains ''gocql: no response received from cassandra within timeout period'' ''TooManyRequests (429)'' \<and>
   Contains ''gocql: no response received from cassandra within timeout period'' ''timeout'' \<and>
   status (Add (\<lambda>q. Some ''gocql: no response received from cassandra within timeout period'')
        ''ins'' \<lparr>GenerateUUID = (''u'', None), Intn200 = 7, Now = 0\<rparr>) = 408"
  using Add_status [of "\<lambda>q. Some ''gocql: no response received from cassandra within timeout period''"
      "''ins''" "\<lparr>GenerateUUID = (''u'', None), Intn200 = 7, Now = 0\<rparr>"
      "''gocql: no response received from cassandra within timeout period''"]
  by simp

text \<open>
  C3, as the claim states it, fails: for a successful attempt the observer emits no log
  record, and for a failed attempt after the first it emits two.
\<close>

theorem observer_success_counterexample:
  "ObserveQuery \<lparr>orderID = ''o1''\<rparr> \<lparr>Attempt = 0, Err = None\<rparr> = [] \<and>
   length (ObserveQuery \<lparr>orderID = ''o1''\<rparr> \<lparr>Attempt = 0, Err = None\<rparr>) \<noteq> 1 \<and>
   length (ObserveQuery \<lparr>orderID = ''o1''\<rparr> \<lparr>Attempt = 1, Err = Some ''timeout''\<rparr>) = 2"
  by (simp add: ObserveQuery_def)

text \<open>
  C3, amended. The observer is called exactly once for every attempt of an operation, the
  successful attempt and the final failing attempt included, with the attempt's index
  (0, 1, 2, ... in order) and its outcome. It emits log records for failed attempts only: one
  record for a failed attempt with index 0, two (the error line and the retry note) for a
  failed attempt with a greater index, none for a successful attempt.
\<close>

theorem observer_per_attempt:
  "map obsIndex (observations (execute classify policy b jitter operation backend)) =
     [0..<attempts (execute classify policy b jitter operation backend)] \<and>
   (\<forall>ob \<in> set (observations (execute classify policy b jitter operation backend)).
      obsId ob = correlationId operation \<and>
      obsOutcome ob = outcome_of classify backend (obsIndex ob) \<and>
      length (ObserveQuery \<lparr>orderID = obsId ob\<rparr> (observed ob)) =
        (case obsOutcome ob of Succeeded \<Rightarrow> 0
         | Failed kind rawError \<Rightarrow> if obsIndex ob = 0 then 1 else 2))"
  using observations_run [of classify policy b jitter operation backend 0]
  by (simp add: execute_def ObserveQuery_length)

theorem observer_per_attempt_witness:
  "observations (execute (\<lambda>raw. Throttled None) (Some (NewCosmosRetryPolicy 2))
       \<lparr>baseDelay = 100, maxDelay = 1000\<rparr> (\<lambda>i. 7)
       \<lparr>correlationId = ''o1'', payload = [], idempotent = True\<rparr>
       (\<lambda>i. if i < 2 then Some ''TooManyRequests (429)'' else None)) =
     [\<lparr>obsId = ''o1'', obsIndex = 0, obsOutcome = Failed (Throttled None) ''TooManyRequests (429)''\<rparr>,
      \<lparr>obsId = ''o1'', obsIndex = 1, obsOutcome = Failed (Throttled None) ''TooManyRequests (429)''\<rparr>,
      \<lparr>obsId = ''o1'', obsIndex = 2, obsOutcome = Succeeded\<rparr>] \<and>
   attempts (execute (\<lambda>raw. Throttled None) (Some (NewCosmosRetryPolicy 2))
       \<lparr>baseDelay = 100, maxDelay = 1000\<rparr> (\<lambda>i. 7)
       \<lparr>correlationId = ''o1'', payload = [], idempotent = True\<rparr>
       (\<lambda>i. if i < 2 then Some ''TooManyRequests (429)'' else None)) = 3 \<and>
   map (\<lambda>ob. length (ObserveQuery \<lparr>orderID = obsId ob\<rparr> (observed ob)))
     (observations (execute (\<lambda>raw. Throttled None) (Some (NewCosmosRetryPolicy 2))
       \<lparr>baseDelay = 100, maxDelay = 1000\<rparr> (\<lambda>i. 7)
       \<lparr>correlationId = ''o1'', payload = [], idempotent = True\<rparr>
       (\<lambda>i. if i < 2 then Some ''TooManyRequests (429)'' else None))) = [1, 2, 0]"
proof -
  let ?r = "execute (\<lambda>raw. Throttled None) (Some (NewCosmosRetryPolicy 2))
       \<lparr>baseDelay = 100, maxDelay = 1000\<rparr> (\<lambda>i. 7)
       \<lparr>correlationId = ''o1'', payload = [], idempotent = True\<rparr>
       (\<lambda>i. if i < 2 then Some ''TooManyRequests (429)'' else None)"
  have obs: "observations ?r =
     [\<lparr>obsId = ''o1'', obsIndex = 0, obsOutcome = Failed (Throttled None) ''TooManyRequests (429)''\<rparr>,
      \<lparr>obsId = ''o1'', obsIndex = 1, obsOutcome = Failed (Throttled None) ''TooManyRequests (429)''\<rparr>,
      \<lparr>obsId = ''o1'', obsIndex = 2, obsOutcome = Succeeded\<rparr>]"
    by code_simp
  have att: "attempts ?r = 3"
    by code_simp
  from observer_per_attempt [of "\<lambda>raw. Throttled None" "Some (NewCosmosRetryPolicy 2)"
      "\<lparr>baseDelay = 100, maxDelay = 1000\<rparr>" "\<lambda>i. 7"
      "\<lparr>correlationId = ''o1'', payload = [], idempotent = True\<rparr>"
      "\<lambda>i. if i < 2 then Some ''TooManyRequests (429)'' else None"]
  have "\<forall>ob \<in> set (observations ?r).
      length (ObserveQuery \<lparr>orderID = obsId ob\<rparr> (observed ob)) =
        (case obsOutcome ob of Succeeded \<Rightarrow> 0
         | Failed kind rawError \<Rightarrow> if obsIndex ob = 0 then 1 else 2)"
    by blast
  with obs att show ?thesis by simp
qed

text \<open>
  C4. When start-up leaves the retry flag disabled, the session has no retry policy, and a
  write whose first attempt fails (as Throttled or as anything else) is attempted exactly
  once: the terminal error counts one attempt, no retry decision is asked for and nothing is
  slept.
\<close>

theorem disabled_single_attempt:
  "init Getenv CreateSession = Inr g \<Longrightarrow> \<not> useRetryPolicy g \<Longrightarrow> backend 0 = Some rawError \<Longrightarrow>
   RetryPolicy (cs g) = None \<and>
   execute classify (RetryPolicy (cs g)) b jitter operation backend =
     \<lparr>result = TerminalError (classify rawError) rawError 1, attempts = 1,
      observations = [\<lparr>obsId = correlationId operation, obsIndex = 0,
                       obsOutcome = Failed (classify rawError) rawError\<rparr>],
      decisions = [], sleeps = []\<rparr>"
  by (simp add: init_disabled execute_def attempting_no_policy)

theorem disabled_single_attempt_witness:
  "\<exists>g. init (\<lambda>k. if k = ''USE_RETRY_POLICY'' then ''false'' else ''x'') (\<lambda>c. None) = Inr g \<and>
     \<not> useRetryPolicy g \<and>
     (\<lambda>i. Some ''TooManyRequests (429)'') (0 :: nat) = Some ''TooManyRequests (429)'' \<and>
     attempts (execute (\<lambda>raw. Throttled None) (RetryPolicy (cs g))
       \<lparr>baseDelay = 100, maxDelay = 1000\<rparr> (\<lambda>i. 7)
       \<lparr>correlationId = ''o1'', payload = [], idempotent = True\<rparr>
       (\<lambda>i. Some ''TooManyRequests (429)'')) = 1"
proof -
  have "\<exists>g. init (\<lambda>k. if k = ''USE_RETRY_POLICY'' then ''false'' else ''x'') (\<lambda>c. None) = Inr g \<and>
     \<not> useRetryPolicy g"
    by (simp add: init_def ParseBool_def Let_def)
  then obtain g where g: "init (\<lambda>k. if k = ''USE_RETRY_POLICY'' then ''false'' else ''x'') (\<lambda>c. None) = Inr g"
    "\<not> useRetryPolicy g" by blast
  have be: "(\<lambda>i. Some ''TooManyRequests (429)'') (0 :: nat) = Some ''TooManyRequests (429)''"
    by simp
  from disabled_single_attempt [OF g be, of "\<lambda>raw. Throttled None"
      "\<lparr>baseDelay = 100, maxDelay = 1000\<rparr>" "\<lambda>i. 7"
      "\<lparr>correlationId = ''o1'', payload = [], idempotent = True\<rparr>"]
  have "attempts (execute (\<lambda>raw. Throttled None) (RetryPolicy (cs g))
       \<lparr>baseDelay = 100, maxDelay = 1000\<rparr> (\<lambda>i. 7)
       \<lparr>correlationId = ''o1'', payload = [], idempotent = True\<rparr>
       (\<lambda>i. Some ''TooManyRequests (429)'')) = 1"
    by (elim conjE) simp
  with g show ?thesis by auto
qed

text \<open>
  C5. With the mandatory variables set, the retry flag enabled and the session created,
  start-up builds the retry policy with 5 when \<open>MAX_RETRIES\<close> is unset or empty, with \<open>n\<close>
  when it is the decimal numeral of a non-negative integer \<open>n\<close> in the range of \<open>int\<close>, and in
  general with whatever integer \<open>strconv.Atoi\<close> reads from it.
\<close>

theorem init_max_retries:
  "Getenv ''COSMOSDB_CASSANDRA_CONTACT_POINT'' \<noteq> [] \<and>
   Getenv ''COSMOSDB_CASSANDRA_USER'' \<noteq> [] \<and>
   Getenv ''COSMOSDB_CASSANDRA_PASSWORD'' \<noteq> [] \<Longrightarrow>
   Getenv ''USE_RETRY_POLICY'' \<in> {[], ''1'', ''t'', ''T'', ''true'', ''TRUE'', ''True''} \<Longrightarrow>
   \<forall>c. CreateSession c = None \<Longrightarrow>
   (Getenv ''MAX_RETRIES'' = [] \<longrightarrow>
      (\<exists>g. init Getenv CreateSession = Inr g \<and> useRetryPolicy g \<and>
           RetryPolicy (cs g) = Some (NewCosmosRetryPolicy 5))) \<and>
   (\<forall>n < 2 ^ 63. Getenv ''MAX_RETRIES'' = Itoa (int n) \<longrightarrow>
      (\<exists>g. init Getenv CreateSession = Inr g \<and> useRetryPolicy g \<and>
           RetryPolicy (cs g) = Some (NewCosmosRetryPolicy (int n)))) \<and>
   (\<forall>v. Getenv ''MAX_RETRIES'' \<noteq> [] \<and> Atoi (Getenv ''MAX_RETRIES'') = Inr v \<longrightarrow>
      (\<exists>g. init Getenv CreateSession = Inr g \<and> useRetryPolicy g \<and>
           RetryPolicy (cs g) = Some (NewCosmosRetryPolicy v)))"
proof -
  assume env: "Getenv ''COSMOSDB_CASSANDRA_CONTACT_POINT'' \<noteq> [] \<and>
     Getenv ''COSMOSDB_CASSANDRA_USER'' \<noteq> [] \<and>
     Getenv ''COSMOSDB_CASSANDRA_PASSWORD'' \<noteq> []"
    and flag: "Getenv ''USE_RETRY_POLICY'' \<in> {[], ''1'', ''t'', ''T'', ''true'', ''TRUE'', ''True''}"
    and sess: "\<forall>c. CreateSession c = None"
  from flag have pb: "ParseBool (if Getenv ''USE_RETRY_POLICY'' = [] then ''true''
      else Getenv ''USE_RETRY_POLICY'') = Inr True"
    by (auto simp: ParseBool_def)
  have gen: "\<exists>g. init Getenv CreateSession = Inr g \<and> useRetryPolicy g \<and>
           RetryPolicy (cs g) = Some (NewCosmosRetryPolicy v)"
    if "Atoi (if Getenv ''MAX_RETRIES'' = [] then ''5'' else Getenv ''MAX_RETRIES'') = Inr v" for v
    using env sess pb that by (simp add: init_def Let_def)
  have a: "Getenv ''MAX_RETRIES'' = [] \<longrightarrow>
      (\<exists>g. init Getenv CreateSession = Inr g \<and> useRetryPolicy g \<and>
           RetryPolicy (cs g) = Some (NewCosmosRetryPolicy 5))"
    using gen [of 5] by (simp add: Atoi_5)
  have b: "\<forall>n < 2 ^ 63. Getenv ''MAX_RETRIES'' = Itoa (int n) \<longrightarrow>
      (\<exists>g. init Getenv CreateSession = Inr g \<and> useRetryPolicy g \<and>
           RetryPolicy (cs g) = Some (NewCosmosRetryPolicy (int n)))"
  proof (intro allI impI)
    fix n :: nat assume n: "n < 2 ^ 63" and m: "Getenv ''MAX_RETRIES'' = Itoa (int n)"
    have "Itoa (int n) \<noteq> []" by (simp add: Itoa_def digits_nonempty)
    with m Atoi_Itoa [OF n] show "\<exists>g. init Getenv CreateSession = Inr g \<and> useRetryPolicy g \<and>
           RetryPolicy (cs g) = Some (NewCosmosRetryPolicy (int n))"
      by (intro gen) simp
  qed
  have c: "\<forall>v. Getenv ''MAX_RETRIES'' \<noteq> [] \<and> Atoi (Getenv ''MAX_RETRIES'') = Inr v \<longrightarrow>
      (\<exists>g. init Getenv CreateSession = Inr g \<and> useRetryPolicy g \<and>
           RetryPolicy (cs g) = Some (NewCosmosRetryPolicy v))"
    using gen by simp
  from a b c show ?thesis by blast
qed

theorem init_max_retries_witness:
  "(\<exists>g. init (\<lambda>k. if k = ''MAX_RETRIES'' then [] else ''true'') (\<lambda>c. None) = Inr g \<and>
        RetryPolicy (cs g) = Some (NewCosmosRetryPolicy 5)) \<and>
   (\<exists>g. init (\<lambda>k. if k = ''MAX_RETRIES'' then ''7'' else ''true'') (\<lambda>c. None) = Inr g \<and>
        RetryPolicy (cs g) = Some (NewCosmosRetryPolicy 7))"
proof -
  have seven: "(7 :: nat) < 2 ^ 63" by simp
  have dec: "(if ''MAX_RETRIES'' = ''MAX_RETRIES'' then ''7'' else ''true'') = Itoa (int 7)"
    by code_simp
  have e0: "(\<lambda>k. if k = ''MAX_RETRIES'' then [] else ''true'') ''COSMOSDB_CASSANDRA_CONTACT_POINT'' \<noteq> [] \<and>
     (\<lambda>k. if k = ''MAX_RETRIES'' then [] else ''true'') ''COSMOSDB_CASSANDRA_USER'' \<noteq> [] \<and>
     (\<lambda>k. if k = ''MAX_RETRIES'' then [] else ''true'') ''COSMOSDB_CASSANDRA_PASSWORD'' \<noteq> []"
    by simp
  have f0: "(\<lambda>k. if k = ''MAX_RETRIES'' then [] else ''true'') ''USE_RETRY_POLICY''
      \<in> {[], ''1'', ''t'', ''T'', ''true'', ''TRUE'', ''True''}"
    by simp
  have e1: "(\<lambda>k. if k = ''MAX_RETRIES'' then ''7'' else ''true'') ''COSMOSDB_CASSANDRA_CONTACT_POINT'' \<noteq> [] \<and>
     (\<lambda>k. if k = ''MAX_RETRIES'' then ''7'' else ''true'') ''COSMOSDB_CASSANDRA_USER'' \<noteq> [] \<and>
     (\<lambda>k. if k = ''MAX_RETRIES'' then ''7'' else ''true'') ''COSMOSDB_CASSANDRA_PASSWORD'' \<noteq> []"
    by simp
  have f1: "(\<lambda>k. if k = ''MAX_RETRIES'' then ''7'' else ''true'') ''USE_RETRY_POLICY''
      \<in> {[], ''1'', ''t'', ''T'', ''true'', ''TRUE'', ''True''}"
    by simp
  have s: "\<forall>c :: ClusterConfig. (\<lambda>c. None :: string option) c = None"
    by simp
  have m0: "(\<lambda>k. if k = ''MAX_RETRIES'' then [] else ''true'') ''MAX_RETRIES'' = []"
    by simp
  from init_max_retries [OF e0 f0 s, THEN conjunct1, rule_format, OF m0]
  have a: "\<exists>g. init (\<lambda>k. if k = ''MAX_RETRIES'' then [] else ''true'') (\<lambda>c. None) = Inr g \<and>
        RetryPolicy (cs g) = Some (NewCosmosRetryPolicy 5)"
    by blast
  from init_max_retries [OF e1 f1 s, THEN conjunct2, THEN conjunct1, rule_format, OF seven dec]
  have b: "\<exists>g. init (\<lambda>k. if k = ''MAX_RETRIES'' then ''7'' else ''true'') (\<lambda>c. None) = Inr g \<and>
        RetryPolicy (cs g) = Some (NewCosmosRetryPolicy 7)"
    by auto
  from a b show ?thesis by blast
qed

text \<open>
  C6. The rate-limit test comes first: an error whose text holds both the rate-limit mark
  and the timeout mark is answered with 429, not with 408.
\<close>

theorem rate_limit_first:
  "Contains err ''TooManyRequests (429)'' \<and> Contains err ''timeout'' \<Longrightarrow>
   respStatus err = 429 \<and> respStatus err \<noteq> 408 \<and>
   status (Add (\<lambda>q. Some err) iq env) = 429"
  by (simp add: Add_def status_def respStatus_def Let_def status_defs)

theorem rate_limit_first_witness:
  "Contains ''TooManyRequests (429): timeout'' ''TooManyRequests (429)'' \<and>
   Contains ''TooManyRequests (429): timeout'' ''timeout'' \<and>
   respStatus ''TooManyRequests (429): timeout'' = 429"
  using rate_limit_first [of "''TooManyRequests (429): timeout''"] by simp

text \<open>
  C7. Classification never fails: every error text is given exactly one status, one of 429,
  408 and 500, and a text holding neither mark falls through to 500.
\<close>

theorem respStatus_total:
  "(\<exists>!code. respStatus err = code) \<and>
   respStatus err \<in> {429, 408, 500} \<and>
   (\<not> Contains err ''TooManyRequests (429)'' \<and> \<not> Contains err ''timeout'' \<longrightarrow>
      respStatus err = 500 \<and> status (Add (\<lambda>q. Some err) iq env) = 500)"
  by (simp add: Add_def status_def respStatus_def Let_def status_defs)

theorem respStatus_total_witness:
  "\<not> Contains ''connection refused'' ''TooManyRequests (429)'' \<and>
   \<not> Contains ''connection refused'' ''timeout'' \<and>
   respStatus ''connection refused'' = 500"
  using respStatus_total [of "''connection refused''"] by simp

text \<open>
  C8. For a failed attempt the observer logs a line holding the order identifier and the
  error text, and after it the note that the order is being retried exactly when the
  attempt index is greater than 0.
\<close>

theorem ObserveQuery_failed:
  "Err oq = Some err \<Longrightarrow>
   \<exists>line rest. ObserveQuery l oq = line # rest \<and>
     Contains line (orderID l) \<and> Contains line err \<and>
     (rest \<noteq> [] \<longleftrightarrow> Attempt oq > 0) \<and>
     (Attempt oq > 0 \<longrightarrow>
        rest = [''Order '' @ orderID l @ '' is being retried. attempt #'' @ Itoa (Attempt oq)])"
proof -
  assume e: "Err oq = Some err"
  let ?line = "''Query error for order ID '' @ orderID l @ [CHR 0x0A] @ err"
  have 1: "Contains ?line (orderID l)" by (rule Contains_mid)
  have "Contains ((''Query error for order ID '' @ orderID l @ [CHR 0x0A]) @ err @ []) err"
    by (rule Contains_mid)
  then have 2: "Contains ?line err" by simp
  from e 1 2 show ?thesis
    by (simp add: ObserveQuery_def)
qed

theorem ObserveQuery_failed_witness:
  "Err \<lparr>Attempt = 2, Err = Some ''boom''\<rparr> = Some ''boom'' \<and>
   ObserveQuery \<lparr>orderID = ''o1''\<rparr> \<lparr>Attempt = 2, Err = Some ''boom''\<rparr> =
     [''Query error for order ID o1'' @ [CHR 0x0A] @ ''boom'',
      ''Order o1 is being retried. attempt #2'']"
proof -
  have "ObserveQuery \<lparr>orderID = ''o1''\<rparr> \<lparr>Attempt = 2, Err = Some ''boom''\<rparr> =
     [''Query error for order ID o1'' @ [CHR 0x0A] @ ''boom'',
      ''Order o1 is being retried. attempt #2'']"
    by code_simp
  with ObserveQuery_failed [of "\<lparr>Attempt = 2, Err = Some ''boom''\<rparr>" "''boom''" "\<lparr>orderID = ''o1''\<rparr>"]
  show ?thesis by simp
qed

text \<open>
  C9. Whatever \<open>rand.Intn(200)\<close> returns within its range \<open>[0, 200)\<close>, the insert issued by
  the handler binds an amount between 50 and 249 (the random value plus 50) and the label
  \<open>Seattle\<close>, whether the query then succeeds or fails.
\<close>

theorem Add_binds:
  "0 \<le> Intn200 env \<and> Intn200 env < 200 \<Longrightarrow>
   \<exists>rid amount t ob.
     executed (Add Exec iq env) =
       [\<lparr>stmt = iq, bound = [VString rid, VInt amount, VString ''Seattle'', VTime t], observer = ob\<rparr>] \<and>
     50 \<le> amount \<and> amount \<le> 249 \<and> amount = Intn200 env + 50"
  by (cases "Exec \<lparr>stmt = iq, bound = [VString (fst (GenerateUUID env)), VInt (Intn200 env + 50),
        VString fixedLocation, VTime (Now env)], observer = \<lparr>orderID = fst (GenerateUUID env)\<rparr>\<rparr>")
     (simp_all add: Add_def Let_def fixedLocation_def)

theorem Add_binds_witness:
  "0 \<le> Intn200 \<lparr>GenerateUUID = (''u'', None), Intn200 = 199, Now = 0\<rparr> \<and>
   Intn200 \<lparr>GenerateUUID = (''u'', None), Intn200 = 199, Now = 0\<rparr> < 200 \<and>
   executed (Add (\<lambda>q. None) ''ins'' \<lparr>GenerateUUID = (''u'', None), Intn200 = 199, Now = 0\<rparr>) =
     [\<lparr>stmt = ''ins'', bound = [VString ''u'', VInt 249, VString ''Seattle'', VTime 0],
       observer = \<lparr>orderID = ''u''\<rparr>\<rparr>]"
  using Add_binds [of "\<lparr>GenerateUUID = (''u'', None), Intn200 = 199, Now = 0\<rparr>" "\<lambda>q. None" "''ins''"]
  by (simp add: Add_def Let_def fixedLocation_def)

text \<open>
  C10. The error returned by \<open>uuid.GenerateUUID\<close> is ignored: whatever it is, the insert is
  executed with the identifier returned beside it (empty or not), the observer carries the
  same identifier, and the handler behaves as if no error had been returned.
\<close>

theorem Add_ignores_uuid_error:
  "executed (Add Exec iq (env\<lparr>GenerateUUID := (rid, uerr)\<rparr>)) =
     [\<lparr>stmt = iq,
       bound = [VString rid, VInt (Intn200 env + 50), VString fixedLocation, VTime (Now env)],
       observer = \<lparr>orderID = rid\<rparr>\<rparr>] \<and>
   Add Exec iq (env\<lparr>GenerateUUID := (rid, uerr)\<rparr>) = Add Exec iq (env\<lparr>GenerateUUID := (rid, None)\<rparr>)"
  by (cases "Exec \<lparr>stmt = iq, bound = [VString rid, VInt (Intn200 env + 50),
        VString fixedLocation, VTime (Now env)], observer = \<lparr>orderID = rid\<rparr>\<rparr>")
     (simp_all add: Add_def Let_def)

theorem Add_ignores_uuid_error_witness:
  "executed (Add (\<lambda>q. None) ''ins''
     (\<lparr>GenerateUUID = (''u'', None), Intn200 = 3, Now = 0\<rparr>
        \<lparr>GenerateUUID := ([], Some ''no entropy'')\<rparr>)) =
     [\<lparr>stmt = ''ins'', bound = [VString [], VInt 53, VString ''Seattle'', VTime 0],
       observer = \<lparr>orderID = []\<rparr>\<rparr>]"
  using Add_ignores_uuid_error [where Exec = "\<lambda>q. None" and iq = "''ins''"
      and env = "\<lparr>GenerateUUID = (''u'', None), Intn200 = 3, Now = 0\<rparr>"
      and rid = "[]" and uerr = "Some ''no entropy''"]
  by (simp add: fixedLocation_def Add_def Let_def)

end
